theory Spec2Isabelle
  imports Complex_Main "HOL-Library.Sublist"
begin

section \<open>Results tracker (bot/results\_tracker.py)\<close>

text \<open>
  A job is the dictionary of strings that \<open>extract_jobs\<close> builds (keys \<open>ref\<close>,
  \<open>submitted\<close>, \<open>appt_date\<close>, \<open>appt_time\<close>, \<open>duration\<close>, \<open>language\<close>, \<open>status\<close>,
  \<open>view_url\<close>); the tracker accepts any such dictionary.

  Time stamps are the values of \<open>time.time()\<close>. They are Python floats in the source and
  exact real numbers here: every float is a rational number, and the model does not round
  the result of a subtraction. Each call of \<open>time.time()\<close> and of
  \<open>datetime.now().isoformat()\<close> is an explicit argument of the operation that makes it,
  in the order in which the source makes the calls.
\<close>

type_synonym job = "string \<rightharpoonup> string"

text \<open>
  \<open>{**job, 'accepted_at': ..., 'accepted_timestamp': ...}\<close>: the entries of the job and
  the two stamped keys, which override entries of the same name.
\<close>

record accepted_job =
  accepted_fields :: job
  accepted_at :: string
  accepted_timestamp :: real

record rejected_job =
  rejected_fields :: job
  rejected_at :: string
  rejected_timestamp :: real
  rejection_reason :: string

record tracker =
  report_interval :: real
  rejected_report_interval :: real
  last_report_time :: real
  last_rejected_report_time :: real
  accepted_jobs :: "accepted_job list"
  rejected_jobs :: "rejected_job list"
  total_accepted :: int
  total_rejected :: int
  session_start_time :: real
  check_cycles :: int
  login_status :: string
  login_time :: "real option"
  last_activity_time :: "real option"

text \<open>
  \<open>ResultsTracker.__init__\<close> reads the clock three times: for \<open>last_report_time\<close>, for
  \<open>last_rejected_report_time\<close> and for \<open>session_start_time\<close>. The defaults of the two
  intervals are 5.0 and 43200.0.
\<close>

definition ResultsTracker :: "real \<Rightarrow> real \<Rightarrow> real \<Rightarrow> real \<Rightarrow> real \<Rightarrow> tracker" where
  "ResultsTracker interval rejected_interval t1 t2 t3 =
     \<lparr> report_interval = interval,
       rejected_report_interval = rejected_interval,
       last_report_time = t1,
       last_rejected_report_time = t2,
       accepted_jobs = [],
       rejected_jobs = [],
       total_accepted = 0,
       total_rejected = 0,
       session_start_time = t3,
       check_cycles = 0,
       login_status = ''Not attempted'',
       login_time = None,
       last_activity_time = None \<rparr>"

definition add_accepted_job :: "job \<Rightarrow> string \<Rightarrow> real \<Rightarrow> tracker \<Rightarrow> tracker" where
  "add_accepted_job j now_iso now self =
     (let job_with_timestamp =
            \<lparr> accepted_fields = j, accepted_at = now_iso, accepted_timestamp = now \<rparr>
      in self\<lparr> accepted_jobs := accepted_jobs self @ [job_with_timestamp],
               total_accepted := total_accepted self + 1 \<rparr>)"

text \<open>
  The reason of \<open>add_rejected_job\<close> is always passed here; the source gives it the
  default \<open>"Unknown"\<close>.
\<close>

definition add_rejected_job :: "job \<Rightarrow> string \<Rightarrow> string \<Rightarrow> real \<Rightarrow> tracker \<Rightarrow> tracker" where
  "add_rejected_job j reason now_iso now self =
     (let job_with_timestamp =
            \<lparr> rejected_fields = j, rejected_at = now_iso, rejected_timestamp = now,
              rejection_reason = reason \<rparr>
      in self\<lparr> rejected_jobs := rejected_jobs self @ [job_with_timestamp],
               total_rejected := total_rejected self + 1 \<rparr>)"

definition increment_check_cycle :: "real \<Rightarrow> tracker \<Rightarrow> tracker" where
  "increment_check_cycle now self =
     self\<lparr> check_cycles := check_cycles self + 1, last_activity_time := Some now \<rparr>"

text \<open>
  The status line starts with a check mark or a cross (the UTF-8 bytes of U+2705 and of
  U+274C) and a space. The clock is read once for \<open>login_time\<close>, when \<open>success\<close> holds,
  and once for \<open>last_activity_time\<close>.
\<close>

definition check_mark :: string where
  "check_mark = [char_of (226::nat), char_of (156::nat), char_of (133::nat)]"

definition cross_mark :: string where
  "cross_mark = [char_of (226::nat), char_of (157::nat), char_of (140::nat)]"

definition set_login_status :: "string \<Rightarrow> bool \<Rightarrow> real \<Rightarrow> real \<Rightarrow> tracker \<Rightarrow> tracker" where
  "set_login_status status success now_login now self =
     (let self1 = self\<lparr> login_status :=
                    (if success then check_mark else cross_mark) @ '' '' @ status \<rparr>;
          self2 = (if success then self1\<lparr> login_time := Some now_login \<rparr> else self1)
      in self2\<lparr> last_activity_time := Some now \<rparr>)"

definition update_activity :: "real \<Rightarrow> tracker \<Rightarrow> tracker" where
  "update_activity now self = self\<lparr> last_activity_time := Some now \<rparr>"

definition should_report :: "real \<Rightarrow> tracker \<Rightarrow> bool" where
  "should_report current_time self =
     (current_time - last_report_time self \<ge> report_interval self)"

definition should_report_rejected :: "real \<Rightarrow> tracker \<Rightarrow> bool" where
  "should_report_rejected current_time self =
     (current_time - last_rejected_report_time self \<ge> rejected_report_interval self)"

text \<open>
  \<open>round(x, n)\<close> on the exact value: the nearest multiple of \<open>10 ^ (-n)\<close>, a tie going to
  the even one.
\<close>

definition round_half_even :: "real \<Rightarrow> int" where
  "round_half_even x =
     (let f = \<lfloor>x\<rfloor>; d = x - of_int f
      in if d < 1/2 then f else if d > 1/2 then f + 1 else if even f then f else f + 1)"

definition py_round :: "real \<Rightarrow> nat \<Rightarrow> real" where
  "py_round x n = of_int (round_half_even (x * 10 ^ n)) / 10 ^ n"

text \<open>
  \<open>if self.login_time:\<close> is false for \<open>None\<close> and for the float zero.
\<close>

definition time_since :: "real \<Rightarrow> real option \<Rightarrow> real option" where
  "time_since current_time t =
     (case t of
        None \<Rightarrow> None
      | Some t0 \<Rightarrow> if t0 = 0 then None else Some (py_round (current_time - t0) 1))"

record results_summary =
  rs_session_duration_minutes :: real
  rs_session_duration_seconds :: real
  rs_check_cycles :: int
  rs_login_status :: string
  rs_time_since_login :: "real option"
  rs_time_since_activity :: "real option"
  rs_total_accepted :: int
  rs_total_rejected :: int
  rs_accepted_since_last_report :: nat
  rs_jobs_since_last_report :: "accepted_job list"
  rs_report_time :: string

definition get_results_summary :: "real \<Rightarrow> string \<Rightarrow> tracker \<Rightarrow> results_summary" where
  "get_results_summary current_time now_iso self =
     (let session_duration = current_time - session_start_time self;
          jobs_since_last_report =
            filter (\<lambda>j. accepted_timestamp j > last_report_time self) (accepted_jobs self);
          time_since_login = time_since current_time (login_time self);
          time_since_activity = time_since current_time (last_activity_time self)
      in \<lparr> rs_session_duration_minutes = py_round (session_duration / 60) 2,
           rs_session_duration_seconds = py_round session_duration 1,
           rs_check_cycles = check_cycles self,
           rs_login_status = login_status self,
           rs_time_since_login = time_since_login,
           rs_time_since_activity = time_since_activity,
           rs_total_accepted = total_accepted self,
           rs_total_rejected = total_rejected self,
           rs_accepted_since_last_report = length jobs_since_last_report,
           rs_jobs_since_last_report = jobs_since_last_report,
           rs_report_time = now_iso \<rparr>)"

record rejected_summary =
  rj_session_duration_seconds :: real
  rj_check_cycles :: int
  rj_login_status :: string
  rj_total_rejected :: int
  rj_rejected_since_last_report :: nat
  rj_jobs_since_last_rejected_report :: "rejected_job list"
  rj_report_time :: string

definition get_rejected_summary :: "real \<Rightarrow> string \<Rightarrow> tracker \<Rightarrow> rejected_summary" where
  "get_rejected_summary current_time now_iso self =
     (let session_duration = current_time - session_start_time self;
          jobs_since_last_rejected_report =
            filter (\<lambda>j. rejected_timestamp j > last_rejected_report_time self)
              (rejected_jobs self)
      in \<lparr> rj_session_duration_seconds = py_round session_duration 1,
           rj_check_cycles = check_cycles self,
           rj_login_status = login_status self,
           rj_total_rejected = total_rejected self,
           rj_rejected_since_last_report = length jobs_since_last_rejected_report,
           rj_jobs_since_last_rejected_report = jobs_since_last_rejected_report,
           rj_report_time = now_iso \<rparr>)"

record unified_summary =
  us_session_duration_minutes :: real
  us_session_duration_seconds :: real
  us_check_cycles :: int
  us_login_status :: string
  us_time_since_login :: "real option"
  us_time_since_activity :: "real option"
  us_total_accepted :: int
  us_total_rejected :: int
  us_accepted_since_last_report :: nat
  us_rejected_since_last_report :: nat
  us_jobs_accepted_since_last :: "accepted_job list"
  us_jobs_rejected_since_last :: "rejected_job list"
  us_report_time :: string

definition get_unified_summary :: "real \<Rightarrow> string \<Rightarrow> tracker \<Rightarrow> unified_summary" where
  "get_unified_summary current_time now_iso self =
     (let session_duration = current_time - session_start_time self;
          jobs_accepted_since_last =
            filter (\<lambda>j. accepted_timestamp j > last_report_time self) (accepted_jobs self);
          jobs_rejected_since_last =
            filter (\<lambda>j. rejected_timestamp j > last_report_time self) (rejected_jobs self);
          time_since_login = time_since current_time (login_time self);
          time_since_activity = time_since current_time (last_activity_time self)
      in \<lparr> us_session_duration_minutes = py_round (session_duration / 60) 2,
           us_session_duration_seconds = py_round session_duration 1,
           us_check_cycles = check_cycles self,
           us_login_status = login_status self,
           us_time_since_login = time_since_login,
           us_time_since_activity = time_since_activity,
           us_total_accepted = total_accepted self,
           us_total_rejected = total_rejected self,
           us_accepted_since_last_report = length jobs_accepted_since_last,
           us_rejected_since_last_report = length jobs_rejected_since_last,
           us_jobs_accepted_since_last = jobs_accepted_since_last,
           us_jobs_rejected_since_last = jobs_rejected_since_last,
           us_report_time = now_iso \<rparr>)"

text \<open>
  \<open>report_results\<close> reads the clock in \<open>should_report\<close>, then in
  \<open>get_unified_summary\<close> (and \<open>datetime.now()\<close> there), then for the new
  \<open>last_report_time\<close>. It returns nothing; what it prints is the summary, so the model
  returns the printed summary beside the tracker: \<open>None\<close> when the call returned early
  and printed nothing.
\<close>

definition report_results ::
  "real \<Rightarrow> real \<Rightarrow> string \<Rightarrow> real \<Rightarrow> tracker \<Rightarrow> unified_summary option \<times> tracker" where
  "report_results t_check t_summary now_iso t_stamp self =
     (if \<not> should_report t_check self then (None, self)
      else (let summary = get_unified_summary t_summary now_iso self
            in (Some summary, self\<lparr> last_report_time := t_stamp \<rparr>)))"

definition report_rejected_jobs ::
  "real \<Rightarrow> real \<Rightarrow> string \<Rightarrow> real \<Rightarrow> tracker \<Rightarrow> rejected_summary option \<times> tracker" where
  "report_rejected_jobs t_check t_summary now_iso t_stamp self =
     (if \<not> should_report_rejected t_check self then (None, self)
      else (let summary = get_rejected_summary t_summary now_iso self
            in (Some summary, self\<lparr> last_rejected_report_time := t_stamp \<rparr>)))"

text \<open>
  The calls that change a tracker, each with the clock readings it consumes, and a
  sequence of such calls applied from left to right. \<open>print_accepted_job_report\<close>,
  \<open>get_detailed_stats\<close> and \<open>print_detailed_stats\<close> only read the tracker.
\<close>

datatype tracker_call =
    AddAccepted job string real
  | AddRejected job string string real
  | IncrementCheckCycle real
  | SetLoginStatus string bool real real
  | UpdateActivity real
  | ReportResults real real string real
  | ReportRejectedJobs real real string real

fun call :: "tracker_call \<Rightarrow> tracker \<Rightarrow> tracker" where
  "call (AddAccepted j stamp t) self = add_accepted_job j stamp t self"
| "call (AddRejected j reason stamp t) self = add_rejected_job j reason stamp t self"
| "call (IncrementCheckCycle t) self = increment_check_cycle t self"
| "call (SetLoginStatus status success t1 t2) self = set_login_status status success t1 t2 self"
| "call (UpdateActivity t) self = update_activity t self"
| "call (ReportResults t1 t2 stamp t3) self = snd (report_results t1 t2 stamp t3 self)"
| "call (ReportRejectedJobs t1 t2 stamp t3) self = snd (report_rejected_jobs t1 t2 stamp t3 self)"

definition calls :: "tracker_call list \<Rightarrow> tracker \<Rightarrow> tracker" where
  "calls cs self = foldl (\<lambda>t c. call c t) self cs"

section \<open>Strings\<close>

text \<open>
  Strings are lists of bytes. \<open>str.lower()\<close> and \<open>str.strip()\<close> are modelled on ASCII:
  \<open>lower\<close> maps \<open>A\<close>..\<open>Z\<close> to \<open>a\<close>..\<open>z\<close> and leaves every other byte as it is, and
  the white space that \<open>strip\<close> removes is the ASCII white space of Python (tab, line
  feed, vertical tab, form feed, carriage return, the four separators 28..31 and the
  space). \<open>s in t\<close> on strings is \<open>sublist s t\<close>: \<open>s\<close> occurs in \<open>t\<close> as a contiguous
  block.
\<close>

definition lower_char :: "char \<Rightarrow> char" where
  "lower_char c =
     (let n = (of_char c :: nat) in if 65 \<le> n \<and> n \<le> 90 then char_of (n + 32) else c)"

definition lower :: "string \<Rightarrow> string" where
  "lower s = map lower_char s"

definition is_space :: "char \<Rightarrow> bool" where
  "is_space c = ((of_char c :: nat) \<in> {9, 10, 11, 12, 13, 28, 29, 30, 31, 32})"

definition strip :: "string \<Rightarrow> string" where
  "strip s = rev (dropWhile is_space (rev (dropWhile is_space s)))"

text \<open>
  A string literal cannot hold a single quote, so the CSS selectors of the source that
  have one are named here: \<open>a[href*='interpreter-jobs']\<close>,
  \<open>form[action*='/interpreter-jobs/{numeric_id}/matched']\<close>,
  \<open>button[type='submit']\<close>, \<open>form[action*='matched/reject']\<close>,
  \<open>button, input[type='submit']\<close> and \<open>#cancelModal textarea[name='message']\<close>.
\<close>

definition sq :: string where
  "sq = [CHR 0x27]"

definition view_link_selector :: string where
  "view_link_selector = ''a[href*='' @ sq @ ''interpreter-jobs'' @ sq @ '']''"

definition accept_form_selector :: "string \<Rightarrow> string" where
  "accept_form_selector numeric_id =
     ''form[action*='' @ sq @ ''/interpreter-jobs/'' @ numeric_id @ ''/matched'' @ sq @ '']''"

definition submit_button_selector :: string where
  "submit_button_selector = ''button[type='' @ sq @ ''submit'' @ sq @ '']''"

definition reject_form_selector :: string where
  "reject_form_selector = ''form[action*='' @ sq @ ''matched/reject'' @ sq @ '']''"

definition reject_submit_selector :: string where
  "reject_submit_selector = ''button, input[type='' @ sq @ ''submit'' @ sq @ '']''"

definition cancel_message_selector :: string where
  "cancel_message_selector = ''#cancelModal textarea[name='' @ sq @ ''message'' @ sq @ '']''"

text \<open>\<open>s.rstrip('/')\<close> and \<open>s.split('/')[0]\<close>.\<close>

definition rstrip_slash :: "string \<Rightarrow> string" where
  "rstrip_slash s = rev (dropWhile (\<lambda>c. c = CHR ''/'') (rev s))"

definition split_slash_first :: "string \<Rightarrow> string" where
  "split_slash_first s = takeWhile (\<lambda>c. c \<noteq> CHR ''/'') s"

section \<open>The browser, the clock and exceptions\<close>

text \<open>
  A computation runs on a world \<open>'w\<close> (the browser with its page, and the clock), changes
  it, and either returns a value or raises an exception. \<open>io_try body handler\<close> is
  \<open>try: body except Exception: handler\<close>; every exception of the model is an
  \<open>Exception\<close>.
\<close>

datatype exn =
    PlaywrightTimeoutError
  | KeyError string
  | UnboundLocalError string
  | OtherException string

type_synonym ('w, 'a) io = "'w \<Rightarrow> (exn + 'a) \<times> 'w"

definition io_return :: "'a \<Rightarrow> ('w, 'a) io" where
  "io_return a w = (Inr a, w)"

definition io_raise :: "exn \<Rightarrow> ('w, 'a) io" where
  "io_raise e w = (Inl e, w)"

definition io_bind :: "('w, 'a) io \<Rightarrow> ('a \<Rightarrow> ('w, 'b) io) \<Rightarrow> ('w, 'b) io" where
  "io_bind m f w = (case m w of (Inl e, w') \<Rightarrow> (Inl e, w') | (Inr a, w') \<Rightarrow> f a w')"

definition io_try :: "('w, 'a) io \<Rightarrow> (exn \<Rightarrow> ('w, 'a) io) \<Rightarrow> ('w, 'a) io" where
  "io_try body handler w =
     (case body w of (Inl e, w') \<Rightarrow> handler e w' | (Inr a, w') \<Rightarrow> (Inr a, w'))"

text \<open>
  What BeautifulSoup gives for a detail page, as far as
  \<open>_extract_interpreter_details_text\<close> asks: the elements that
  \<open>select("table.table.table--detail tr")\<close> and \<open>select(".job__detail")\<close> return. Of a
  tag: \<open>get_text(strip=True)\<close>, \<open>get_text(" ", strip=True)\<close>, \<open>find_all("td")\<close> and
  \<open>find_next()\<close> (\<open>None\<close> when there is no next element).
\<close>

datatype tag =
  Tag (get_text_strip: string) (get_text_sep: string) (find_all_td: "tag list")
      (find_next: "tag option")

record soup =
  select_detail_tr :: "tag list"
  select_job_detail :: "tag list"

text \<open>
  The capabilities the bot uses, each a method of Playwright's page (\<open>page_\<close>) or of an
  element handle \<open>'e\<close> (\<open>el_\<close>), with the HTML parser, the login procedure of
  \<open>login_handler.py\<close> and the two clocks. Nothing is assumed about them.
  \<open>get_attribute("href")\<close> is read only from a link that the selector
  \<open>a[href*='interpreter-jobs']\<close> matched, so it is a string.
\<close>

record ('w, 'e) env =
  page_goto :: "string \<Rightarrow> ('w, unit) io"
  page_content :: "('w, string) io"
  page_wait_for_selector :: "string \<Rightarrow> ('w, unit) io"
  page_wait_for_load_state :: "string \<Rightarrow> ('w, unit) io"
  page_query_selector :: "string \<Rightarrow> ('w, 'e option) io"
  page_query_selector_all :: "string \<Rightarrow> ('w, 'e list) io"
  page_is_visible :: "string \<Rightarrow> ('w, bool) io"
  page_click :: "string \<Rightarrow> ('w, unit) io"
  page_fill :: "string \<Rightarrow> string \<Rightarrow> ('w, unit) io"
  el_query_selector :: "'e \<Rightarrow> string \<Rightarrow> ('w, 'e option) io"
  el_query_selector_all :: "'e \<Rightarrow> string \<Rightarrow> ('w, 'e list) io"
  el_inner_text :: "'e \<Rightarrow> ('w, string) io"
  el_get_attribute :: "'e \<Rightarrow> string \<Rightarrow> ('w, string) io"
  el_click :: "'e \<Rightarrow> ('w, unit) io"
  BeautifulSoup :: "string \<Rightarrow> soup"
  perform_login :: "string \<Rightarrow> string \<Rightarrow> string \<Rightarrow> ('w, unit) io"
  time_time :: "'w \<Rightarrow> real \<times> 'w"
  datetime_now_isoformat :: "'w \<Rightarrow> string \<times> 'w"

section \<open>Extraction, classification and actions (bot/data\_processor.py)\<close>

text \<open>
  The body of the loop of \<open>extract_jobs\<close> for one row: \<open>None\<close> when the row is skipped
  by \<open>continue\<close>. An element handle is a true value, so \<open>cells[i].inner_text().strip() if
  cells[i] else ""\<close> always reads the text.
\<close>

definition extract_row :: "('w, 'e) env \<Rightarrow> 'e \<Rightarrow> ('w, job option) io" where
  "extract_row env row =
     io_bind (el_query_selector_all env row ''td[colspan]'') (\<lambda>colspan_cells.
     if colspan_cells \<noteq> [] then io_return None
     else
     io_bind (el_query_selector_all env row ''td.table__data'') (\<lambda>cells.
     if length cells < 8 then io_return None
     else
     io_bind (el_inner_text env (cells ! 0)) (\<lambda>t0.
     io_bind (el_inner_text env (cells ! 1)) (\<lambda>t1.
     io_bind (el_inner_text env (cells ! 2)) (\<lambda>t2.
     io_bind (el_inner_text env (cells ! 3)) (\<lambda>t3.
     io_bind (el_inner_text env (cells ! 4)) (\<lambda>t4.
     io_bind (el_inner_text env (cells ! 5)) (\<lambda>t5.
     io_bind (el_inner_text env (cells ! 6)) (\<lambda>t6.
     io_bind (el_query_selector env (cells ! 7) view_link_selector) (\<lambda>view_link.
     io_bind (case view_link of
                Some link \<Rightarrow> el_get_attribute env link ''href''
              | None \<Rightarrow> io_return '''') (\<lambda>view_url.
     io_return (Some
       [''ref'' \<mapsto> strip t0,
        ''submitted'' \<mapsto> strip t1,
        ''appt_date'' \<mapsto> strip t2,
        ''appt_time'' \<mapsto> strip t3,
        ''duration'' \<mapsto> strip t4,
        ''language'' \<mapsto> strip t5,
        ''status'' \<mapsto> strip t6,
        ''view_url'' \<mapsto> view_url]))))))))))))"

fun extract_rows :: "('w, 'e) env \<Rightarrow> 'e list \<Rightarrow> job list \<Rightarrow> ('w, job list) io" where
  "extract_rows env [] jobs w = (Inr jobs, w)"
| "extract_rows env (row # rows) jobs w =
     (case extract_row env row w of
        (Inl e, w') \<Rightarrow> (Inl e, w')
      | (Inr None, w') \<Rightarrow> extract_rows env rows jobs w'
      | (Inr (Some j), w') \<Rightarrow> extract_rows env rows (jobs @ [j]) w')"

definition extract_jobs :: "('w, 'e) env \<Rightarrow> ('w, job list) io" where
  "extract_jobs env =
     io_bind
       (io_try
          (io_bind (page_wait_for_selector env ''section.content__table table tbody'')
             (\<lambda>_. io_return True))
          (\<lambda>e. if e = PlaywrightTimeoutError then io_return False else io_raise e))
       (\<lambda>ready.
          if \<not> ready then io_return []
          else io_bind (page_query_selector_all env ''tbody tr.table__row'')
                 (\<lambda>rows. extract_rows env rows []))"

text \<open>
  \<open>job.get(field) and str(job[field]).strip()\<close> is true when the key is there and its
  value is neither empty nor white space only.
\<close>

definition is_all_params_set :: "job \<Rightarrow> string list \<Rightarrow> bool" where
  "is_all_params_set j required_fields =
     list_all (\<lambda>field. case j field of None \<Rightarrow> False | Some v \<Rightarrow> v \<noteq> [] \<and> strip v \<noteq> [])
       required_fields"

fun detail_row_text :: "tag list \<Rightarrow> string option" where
  "detail_row_text [] = None"
| "detail_row_text (tr # trs) =
     (let tds = find_all_td tr
      in if length tds \<ge> 2 \<and> sublist ''interpreter details'' (lower (get_text_strip (tds ! 0)))
         then Some (get_text_sep (tds ! 1))
         else detail_row_text trs)"

fun labelled_text :: "tag list \<Rightarrow> string option" where
  "labelled_text [] = None"
| "labelled_text (label # labels) =
     (if sublist ''interpreter details'' (lower (get_text_strip label))
      then (case find_next label of
              Some nxt \<Rightarrow> Some (get_text_sep nxt)
            | None \<Rightarrow> labelled_text labels)
      else labelled_text labels)"

definition extract_interpreter_details_text :: "soup \<Rightarrow> string" where
  "extract_interpreter_details_text sp =
     (case detail_row_text (select_detail_tr sp) of
        Some t \<Rightarrow> t
      | None \<Rightarrow> (case labelled_text (select_job_detail sp) of Some t \<Rightarrow> t | None \<Rightarrow> ''''))"

definition is_telephone_job ::
  "('w, 'e) env \<Rightarrow> string \<Rightarrow> string \<Rightarrow> string list \<Rightarrow> ('w, bool) io" where
  "is_telephone_job env view_url job_type exclude_types =
     io_try
       (io_bind (page_goto env view_url) (\<lambda>_.
        io_bind (page_content env) (\<lambda>html.
        let details_text = lower (extract_interpreter_details_text (BeautifulSoup env html))
        in if details_text = [] then io_return False
           else if list_ex (\<lambda>ex. sublist (lower ex) details_text) exclude_types
                then io_return False
           else io_return (sublist (lower job_type) details_text))))
       (\<lambda>e. io_return False)"

definition accept_from_board :: "('w, 'e) env \<Rightarrow> string \<Rightarrow> ('w, bool) io" where
  "accept_from_board env ref =
     io_try
       (let numeric_id = strip (split_slash_first ref)
        in io_bind (page_query_selector env
                      (accept_form_selector numeric_id))
             (\<lambda>form. case form of
                None \<Rightarrow> io_return False
              | Some form \<Rightarrow>
                  io_bind (el_query_selector env form ''button.btn.btn--primary'') (\<lambda>primary.
                  io_bind (case primary of
                             Some b \<Rightarrow> io_return (Some b)
                           | None \<Rightarrow> el_query_selector env form submit_button_selector)
                    (\<lambda>btn. case btn of
                       None \<Rightarrow> io_return False
                     | Some btn \<Rightarrow> io_bind (el_click env btn) (\<lambda>_. io_return True)))))
       (\<lambda>e. io_return False)"

definition get_interpreter_details_text :: "('w, 'e) env \<Rightarrow> string \<Rightarrow> ('w, string) io" where
  "get_interpreter_details_text env view_url =
     io_try
       (io_bind (page_goto env view_url) (\<lambda>_.
        io_bind (page_content env) (\<lambda>html.
        io_return (extract_interpreter_details_text (BeautifulSoup env html)))))
       (\<lambda>e. io_return '''')"

definition reject_on_detail :: "('w, 'e) env \<Rightarrow> ('w, bool) io" where
  "reject_on_detail env =
     io_try
       (io_bind (page_query_selector env reject_form_selector) (\<lambda>form.
        case form of
          None \<Rightarrow>
            io_bind (page_query_selector env ''input.btn.btn--reject, .btn.btn--reject'')
              (\<lambda>btn. case btn of
                 Some btn \<Rightarrow> io_bind (el_click env btn) (\<lambda>_. io_return True)
               | None \<Rightarrow> io_return False)
        | Some form \<Rightarrow>
            io_bind (el_query_selector env form reject_submit_selector) (\<lambda>found.
            let btn = (case found of Some b \<Rightarrow> b | None \<Rightarrow> form)
            in io_bind (el_click env btn) (\<lambda>_. io_return True))))
       (\<lambda>e. io_return False)"

section \<open>Configuration (bot/config.py) and the job board (bot/filter\_handler.py)\<close>

text \<open>
  The values the cycle reads from the configuration: the constants of \<open>config.py\<close> and
  the three entries of \<open>BOT_CONFIG["accept_preconditions"]\<close>. \<open>MAX_ACCEPT_PER_RUN\<close> is
  \<open>int(os.getenv("MAX_ACCEPT_PER_RUN", "5"))\<close>, any integer.
\<close>

record config =
  ATOZ_BASE_URL :: string
  ATOZ_USERNAME :: string
  ATOZ_PASSWORD :: string
  MAX_ACCEPT_PER_RUN :: int
  job_type :: string
  exclude_types :: "string list"
  required_fields :: "string list"

definition navigate_to_job_board :: "('w, 'e) env \<Rightarrow> string \<Rightarrow> ('w, unit) io" where
  "navigate_to_job_board env base_url =
     page_goto env (rstrip_slash base_url @ ''/interpreter-jobs'')"

section \<open>The cycle (persistent\_bot.py and atoz\_bot.py)\<close>

text \<open>
  The state of a running bot: the world, the module variable \<open>_tracker\<close> of
  \<open>results_tracker.py\<close>, and \<open>accept_actions\<close>, which is not in the source: it counts
  the accept actions performed, that is the calls of \<open>accept_from_board\<close> that clicked
  the accept button and returned \<open>True\<close>.
\<close>

record 'w machine =
  world :: 'w
  tracker_global :: "tracker option"
  accept_actions :: nat

definition on_world :: "('w, 'a) io \<Rightarrow> ('w machine, 'a) io" where
  "on_world f m = (case f (world m) of (r, w') \<Rightarrow> (r, m\<lparr> world := w' \<rparr>))"

definition count_accept_action :: "('w machine, unit) io" where
  "count_accept_action m = (Inr (), m\<lparr> accept_actions := accept_actions m + 1 \<rparr>)"

text \<open>
  \<open>get_tracker()\<close> creates the tracker with the default intervals when there is none.
  The functions \<open>add_accepted_job\<close> and \<open>add_rejected_job\<close> of the module call the
  methods of that tracker; each reads \<open>datetime.now()\<close> and then \<open>time.time()\<close>.
\<close>

definition get_tracker :: "('w, 'e) env \<Rightarrow> 'w machine \<Rightarrow> tracker \<times> 'w machine" where
  "get_tracker env m =
     (case tracker_global m of
        Some t \<Rightarrow> (t, m)
      | None \<Rightarrow>
          (case time_time env (world m) of (t1, w1) \<Rightarrow>
           case time_time env w1 of (t2, w2) \<Rightarrow>
           case time_time env w2 of (t3, w3) \<Rightarrow>
             (ResultsTracker 5 43200 t1 t2 t3,
              m\<lparr> world := w3, tracker_global := Some (ResultsTracker 5 43200 t1 t2 t3) \<rparr>)))"

definition module_add_accepted_job ::
  "('w, 'e) env \<Rightarrow> job \<Rightarrow> ('w machine, unit) io" where
  "module_add_accepted_job env j m =
     (case get_tracker env m of (t, m1) \<Rightarrow>
      case datetime_now_isoformat env (world m1) of (now_iso, w1) \<Rightarrow>
      case time_time env w1 of (now, w2) \<Rightarrow>
        (Inr (), m1\<lparr> world := w2, tracker_global := Some (add_accepted_job j now_iso now t) \<rparr>))"

definition module_add_rejected_job ::
  "('w, 'e) env \<Rightarrow> job \<Rightarrow> string \<Rightarrow> ('w machine, unit) io" where
  "module_add_rejected_job env j reason m =
     (case get_tracker env m of (t, m1) \<Rightarrow>
      case datetime_now_isoformat env (world m1) of (now_iso, w1) \<Rightarrow>
      case time_time env w1 of (now, w2) \<Rightarrow>
        (Inr (),
         m1\<lparr> world := w2, tracker_global := Some (add_rejected_job j reason now_iso now t) \<rparr>))"

text \<open>\<open>job["ref"]\<close>, which raises \<open>KeyError\<close> when the key is missing.\<close>

definition job_ref :: "job \<Rightarrow> ('s, string) io" where
  "job_ref j = (case j ''ref'' of None \<Rightarrow> io_raise (KeyError ''ref'') | Some r \<Rightarrow> io_return r)"

text \<open>The two blocks \<open>try: ... except Exception: pass\<close> that answer the dialogs.\<close>

definition confirm_24_hour_modal :: "('w, 'e) env \<Rightarrow> ('w, unit) io" where
  "confirm_24_hour_modal env =
     io_try
       (io_bind (page_is_visible env ''#24HourModal'') (\<lambda>visible.
        if visible then page_click env ''#24HourModal #continueButton'' else io_return ()))
       (\<lambda>e. io_return ())"

definition confirm_cancel_modal :: "('w, 'e) env \<Rightarrow> ('w, unit) io" where
  "confirm_cancel_modal env =
     io_try
       (io_bind (page_is_visible env ''#cancelModal'') (\<lambda>visible.
        if visible
        then io_bind (page_fill env cancel_message_selector
                        ''Accepting job via automation'')
               (\<lambda>_. page_click env ''#cancelModal .modal-footer .btn.btn--primary'')
        else io_return ()))
       (\<lambda>e. io_return ())"

definition face_to_face_reason :: string where
  "face_to_face_reason = ''Face-to-face job (not telephone translation)''"

text \<open>
  The body of the loop of \<open>persistent_bot_cycle\<close> for one job, after the test of the
  cap. It returns \<open>True\<close> when it ran to its end, through \<open>accepted += 1\<close>, and \<open>False\<close>
  when it left by \<open>continue\<close>. The log lines are not modelled, but for the \<open>job['ref']\<close>
  they read.
\<close>

definition cycle_step :: "('w, 'e) env \<Rightarrow> config \<Rightarrow> job \<Rightarrow> ('w machine, bool) io" where
  "cycle_step env cfg j =
     (if \<not> sublist ''matched'' (lower (case j ''status'' of Some s \<Rightarrow> s | None \<Rightarrow> ''''))
      then io_return False
      else if required_fields cfg \<noteq> [] \<and> \<not> is_all_params_set j (required_fields cfg)
      then io_return False
      else case j ''view_url'' of
        None \<Rightarrow> io_return False
      | Some view_url \<Rightarrow>
          if view_url = [] then io_return False
          else
          io_bind (on_world (is_telephone_job env view_url (job_type cfg) (exclude_types cfg)))
            (\<lambda>telephone.
          if \<not> telephone
          then
            io_bind (on_world (get_interpreter_details_text env view_url)) (\<lambda>text.
            if list_ex (\<lambda>ex. sublist ex (lower text)) (map lower (exclude_types cfg))
            then
              io_bind (on_world (reject_on_detail env)) (\<lambda>rejected.
              io_bind (if rejected
                       then io_bind (module_add_rejected_job env j face_to_face_reason)
                              (\<lambda>_. io_bind (job_ref j) (\<lambda>_. io_return ()))
                       else io_return ()) (\<lambda>_.
              io_bind (on_world (navigate_to_job_board env (ATOZ_BASE_URL cfg))) (\<lambda>_.
              io_return False)))
            else io_return False)
          else
            io_bind (on_world (navigate_to_job_board env (ATOZ_BASE_URL cfg))) (\<lambda>_.
            io_bind (job_ref j) (\<lambda>ref.
            io_bind (on_world (accept_from_board env ref)) (\<lambda>clicked.
            if \<not> clicked then io_return False
            else
            io_bind count_accept_action (\<lambda>_.
            io_bind (on_world (confirm_24_hour_modal env)) (\<lambda>_.
            io_bind (on_world (confirm_cancel_modal env)) (\<lambda>_.
            io_bind (on_world (page_wait_for_load_state env ''networkidle'')) (\<lambda>_.
            io_bind (module_add_accepted_job env j) (\<lambda>_.
            io_return True))))))))))"

text \<open>
  The loop: \<open>accepted\<close> is the counter of the source. An exception leaves the loop; the
  result holds the exception, if any, and the counter as it was then.
\<close>

fun cycle_loop ::
  "('w, 'e) env \<Rightarrow> config \<Rightarrow> job list \<Rightarrow> int \<Rightarrow> 'w machine \<Rightarrow>
     (exn option \<times> int) \<times> 'w machine" where
  "cycle_loop env cfg [] accepted m = ((None, accepted), m)"
| "cycle_loop env cfg (j # jobs) accepted m =
     (if accepted \<ge> MAX_ACCEPT_PER_RUN cfg then ((None, accepted), m)
      else case cycle_step env cfg j m of
             (Inl e, m') \<Rightarrow> ((Some e, accepted), m')
           | (Inr counted, m') \<Rightarrow>
               cycle_loop env cfg jobs (if counted then accepted + 1 else accepted) m')"

text \<open>
  \<open>persistent_bot_cycle\<close> catches every exception of its body and returns \<open>accepted\<close>.
  The variable is assigned after \<open>page.goto\<close> and \<open>extract_jobs\<close>: when one of them
  raises, \<open>return accepted\<close> raises \<open>UnboundLocalError\<close>.
\<close>

definition persistent_bot_cycle ::
  "('w, 'e) env \<Rightarrow> config \<Rightarrow> string \<Rightarrow> ('w machine, int) io" where
  "persistent_bot_cycle env cfg jobs_url m =
     (case io_bind (on_world (page_goto env jobs_url)) (\<lambda>_. on_world (extract_jobs env)) m of
        (Inl e, m1) \<Rightarrow> (Inl (UnboundLocalError ''accepted''), m1)
      | (Inr jobs, m1) \<Rightarrow>
          (case cycle_loop env cfg jobs 0 m1 of ((_, accepted), m2) \<Rightarrow> (Inr accepted, m2)))"

text \<open>
  \<open>run_once\<close> of \<open>atoz_bot.py\<close>, from the new page on (launching and closing the browser
  are outside the model). Its loop is the same without the tracker, and nothing catches
  an exception.
\<close>

definition try_login :: "('w, 'e) env \<Rightarrow> config \<Rightarrow> ('w, unit) io" where
  "try_login env cfg =
     (if \<not> (ATOZ_USERNAME cfg \<noteq> [] \<and> ATOZ_PASSWORD cfg \<noteq> []) then io_return ()
      else io_try
             (perform_login env (ATOZ_BASE_URL cfg) (ATOZ_USERNAME cfg) (ATOZ_PASSWORD cfg))
             (\<lambda>e. io_return ()))"

definition run_once_step :: "('w, 'e) env \<Rightarrow> config \<Rightarrow> job \<Rightarrow> ('w machine, bool) io" where
  "run_once_step env cfg j =
     (if \<not> sublist ''matched'' (lower (case j ''status'' of Some s \<Rightarrow> s | None \<Rightarrow> ''''))
      then io_return False
      else if required_fields cfg \<noteq> [] \<and> \<not> is_all_params_set j (required_fields cfg)
      then io_return False
      else case j ''view_url'' of
        None \<Rightarrow> io_return False
      | Some view_url \<Rightarrow>
          if view_url = [] then io_return False
          else
          io_bind (on_world (is_telephone_job env view_url (job_type cfg) (exclude_types cfg)))
            (\<lambda>telephone.
          if \<not> telephone
          then
            io_bind (on_world (get_interpreter_details_text env view_url)) (\<lambda>text.
            if list_ex (\<lambda>ex. sublist ex (lower text)) (map lower (exclude_types cfg))
            then
              io_bind (on_world (reject_on_detail env)) (\<lambda>rejected.
              io_bind (if rejected then io_bind (job_ref j) (\<lambda>_. io_return ())
                       else io_return ()) (\<lambda>_.
              io_bind (on_world (navigate_to_job_board env (ATOZ_BASE_URL cfg))) (\<lambda>_.
              io_return False)))
            else io_return False)
          else
            io_bind (on_world (navigate_to_job_board env (ATOZ_BASE_URL cfg))) (\<lambda>_.
            io_bind (job_ref j) (\<lambda>ref.
            io_bind (on_world (accept_from_board env ref)) (\<lambda>clicked.
            if \<not> clicked then io_return False
            else
            io_bind count_accept_action (\<lambda>_.
            io_bind (on_world (confirm_24_hour_modal env)) (\<lambda>_.
            io_bind (on_world (confirm_cancel_modal env)) (\<lambda>_.
            io_bind (on_world (page_wait_for_load_state env ''networkidle'')) (\<lambda>_.
            io_return True)))))))))"

fun run_once_loop ::
  "('w, 'e) env \<Rightarrow> config \<Rightarrow> job list \<Rightarrow> int \<Rightarrow> ('w machine, int) io" where
  "run_once_loop env cfg [] accepted m = (Inr accepted, m)"
| "run_once_loop env cfg (j # jobs) accepted m =
     (if accepted \<ge> MAX_ACCEPT_PER_RUN cfg then (Inr accepted, m)
      else case run_once_step env cfg j m of
             (Inl e, m') \<Rightarrow> (Inl e, m')
           | (Inr counted, m') \<Rightarrow>
               run_once_loop env cfg jobs (if counted then accepted + 1 else accepted) m')"

definition run_once :: "('w, 'e) env \<Rightarrow> config \<Rightarrow> string \<Rightarrow> ('w machine, int) io" where
  "run_once env cfg jobs_url =
     io_bind (on_world (page_goto env jobs_url)) (\<lambda>_.
     io_bind (on_world (try_login env cfg)) (\<lambda>_.
     io_bind (on_world (navigate_to_job_board env (ATOZ_BASE_URL cfg))) (\<lambda>_.
     io_bind (on_world (extract_jobs env)) (\<lambda>jobs.
     run_once_loop env cfg jobs 0))))"

section \<open>A small concrete browser for the examples\<close>

text \<open>
  A job board whose elements are plain data: a row with the texts of its data cells and
  a flag for a spanning cell, a data cell, the link of a cell, a form with or without a
  button in it, and a button. The board is ready or times out; the detail page of every
  job shows the same interpreter details; \<open>page.query_selector\<close> finds the given form
  or nothing. Nothing changes the page, and the clock stands still.
\<close>

datatype element = Row "string list" bool | Cell string | Link string | Form bool | Button

definition demo_soup :: "string \<Rightarrow> soup" where
  "demo_soup details =
     \<lparr> select_detail_tr =
         [Tag '''' '''' [Tag ''Interpreter details'' ''Interpreter details'' [] None,
                       Tag details details [] None] None],
       select_job_detail = [] \<rparr>"

definition demo_env ::
  "bool \<Rightarrow> element list \<Rightarrow> string \<Rightarrow> element option \<Rightarrow> (unit, element) env" where
  "demo_env ready rows details form =
     \<lparr> page_goto = (\<lambda>url. io_return ()),
       page_content = io_return ''<html>'',
       page_wait_for_selector =
         (\<lambda>sel. if ready then io_return () else io_raise PlaywrightTimeoutError),
       page_wait_for_load_state = (\<lambda>state. io_return ()),
       page_query_selector = (\<lambda>sel. io_return form),
       page_query_selector_all = (\<lambda>sel. io_return rows),
       page_is_visible = (\<lambda>sel. io_return False),
       page_click = (\<lambda>sel. io_return ()),
       page_fill = (\<lambda>sel txt. io_return ()),
       el_query_selector =
         (\<lambda>el sel. io_return
            (case el of
               Cell t \<Rightarrow> Some (Link ''/interpreter-jobs/1'')
             | Form has_button \<Rightarrow> if has_button then Some Button else None
             | _ \<Rightarrow> None)),
       el_query_selector_all =
         (\<lambda>el sel. io_return
            (case el of
               Row texts spanning \<Rightarrow>
                 if sel = ''td[colspan]'' then (if spanning then [Cell ''''] else [])
                 else map Cell texts
             | _ \<Rightarrow> [])),
       el_inner_text = (\<lambda>el. io_return (case el of Cell t \<Rightarrow> t | _ \<Rightarrow> '''')),
       el_get_attribute = (\<lambda>el name. io_return (case el of Link href \<Rightarrow> href | _ \<Rightarrow> '''')),
       el_click = (\<lambda>el. io_return ()),
       BeautifulSoup = (\<lambda>html. demo_soup details),
       perform_login = (\<lambda>base_url username password. io_return ()),
       time_time = (\<lambda>w. (0, w)),
       datetime_now_isoformat = (\<lambda>w. (''2024-01-15T10:00:00'', w)) \<rparr>"

definition demo_config :: config where
  "demo_config =
     \<lparr> ATOZ_BASE_URL = ''https://portal.atozinterpreting.com'',
       ATOZ_USERNAME = ''user'',
       ATOZ_PASSWORD = ''password'',
       MAX_ACCEPT_PER_RUN = 5,
       job_type = ''Telephone interpreting'',
       exclude_types = [''Face-to-Face'', ''Face to Face'', ''In-Person'', ''Onsite''],
       required_fields =
         [''ref'', ''submitted'', ''appt_date'', ''appt_time'', ''duration'', ''language'',
          ''status''] \<rparr>"

definition demo_machine :: "unit machine" where
  "demo_machine = \<lparr> world = (), tracker_global = None, accept_actions = 0 \<rparr>"

definition matched_row :: element where
  "matched_row =
     Row [''101/A'', ''2024-01-15 10:00'', ''2024-01-16'', ''14:30'', ''60 minutes'',
          ''Spanish'', ''Matched'', ''View''] False"

text \<open>
  Three more rows: one with eight data cells that are all blank, one with three data
  cells, and the placeholder row of an empty board, which has a spanning cell.
\<close>

definition blank_row :: element where
  "blank_row = Row ['''', '''', '''', '''', '''', '''', '''', ''''] False"

definition short_row :: element where
  "short_row = Row [''102/B'', ''2024-01-15 11:00'', ''Matched''] False"

definition spanning_row :: element where
  "spanning_row = Row [''There are no interpreter jobs''] True"

text \<open>The dictionaries that \<open>extract_jobs\<close> builds from \<open>matched_row\<close> and \<open>blank_row\<close>.\<close>

definition matched_job :: job where
  "matched_job =
     [''ref'' \<mapsto> ''101/A'',
      ''submitted'' \<mapsto> ''2024-01-15 10:00'',
      ''appt_date'' \<mapsto> ''2024-01-16'',
      ''appt_time'' \<mapsto> ''14:30'',
      ''duration'' \<mapsto> ''60 minutes'',
      ''language'' \<mapsto> ''Spanish'',
      ''status'' \<mapsto> ''Matched'',
      ''view_url'' \<mapsto> ''/interpreter-jobs/1'']"

definition blank_job :: job where
  "blank_job =
     [''ref'' \<mapsto> '''',
      ''submitted'' \<mapsto> '''',
      ''appt_date'' \<mapsto> '''',
      ''appt_time'' \<mapsto> '''',
      ''duration'' \<mapsto> '''',
      ''language'' \<mapsto> '''',
      ''status'' \<mapsto> '''',
      ''view_url'' \<mapsto> ''/interpreter-jobs/1'']"

text \<open>A board of three matched rows, and the example configuration with the cap 2.\<close>

definition three_rows :: "element list" where
  "three_rows = replicate 3 matched_row"

definition capped_config :: config where
  "capped_config = demo_config \<lparr> MAX_ACCEPT_PER_RUN := 2 \<rparr>"

text \<open>The rejected jobs recorded so far; none while the module has no tracker.\<close>

definition recorded_rejections :: "'w machine \<Rightarrow> rejected_job list" where
  "recorded_rejections m = (case tracker_global m of None \<Rightarrow> [] | Some t \<Rightarrow> rejected_jobs t)"

section \<open>Properties of the results tracker\<close>

lemma call_counters_lengths:
  "total_accepted self = int (length (accepted_jobs self)) \<and>
   total_rejected self = int (length (rejected_jobs self)) \<Longrightarrow>
   total_accepted (call c self) = int (length (accepted_jobs (call c self))) \<and>
   total_rejected (call c self) = int (length (rejected_jobs (call c self)))"
  by (cases c)
     (simp_all add: add_accepted_job_def add_rejected_job_def increment_check_cycle_def
        set_login_status_def update_activity_def report_results_def report_rejected_jobs_def
        Let_def)

lemma call_counters_mono:
  "total_accepted self \<le> total_accepted (call c self) \<and>
   total_rejected self \<le> total_rejected (call c self)"
  by (cases c)
     (simp_all add: add_accepted_job_def add_rejected_job_def increment_check_cycle_def
        set_login_status_def update_activity_def report_results_def report_rejected_jobs_def
        Let_def)

lemma calls_counters_lengths:
  "total_accepted self = int (length (accepted_jobs self)) \<and>
   total_rejected self = int (length (rejected_jobs self)) \<Longrightarrow>
   total_accepted (calls cs self) = int (length (accepted_jobs (calls cs self))) \<and>
   total_rejected (calls cs self) = int (length (rejected_jobs (calls cs self)))"
  unfolding calls_def
proof (induction cs arbitrary: self)
  case Nil
  then show ?case by simp
next
  case (Cons c cs)
  from call_counters_lengths [OF Cons.prems] Cons.IH [of "call c self"]
  show ?case by simp
qed

lemma calls_counters_mono:
  "total_accepted self \<le> total_accepted (calls cs self) \<and>
   total_rejected self \<le> total_rejected (calls cs self)"
  unfolding calls_def
proof (induction cs arbitrary: self)
  case Nil
  show ?case by simp
next
  case (Cons c cs)
  from call_counters_mono [of self c] Cons.IH [of "call c self"]
  show ?case by simp
qed

lemma calls_append: "calls (cs @ ds) self = calls ds (calls cs self)"
  by (simp add: calls_def)

text \<open>
  C3. Starting from a freshly initialised tracker, after any sequence of tracker calls
  (\<open>add_accepted_job\<close> and \<open>add_rejected_job\<close> among them) \<open>total_accepted\<close> is the length
  of \<open>accepted_jobs\<close> and \<open>total_rejected\<close> is the length of \<open>rejected_jobs\<close>; and
  however the sequence is continued, neither counter becomes smaller.
\<close>

theorem tracker_counters_match_lists_and_never_decrease:
  "total_accepted (calls cs (ResultsTracker i ri t1 t2 t3)) =
     int (length (accepted_jobs (calls cs (ResultsTracker i ri t1 t2 t3)))) \<and>
   total_rejected (calls cs (ResultsTracker i ri t1 t2 t3)) =
     int (length (rejected_jobs (calls cs (ResultsTracker i ri t1 t2 t3)))) \<and>
   total_accepted (calls cs (ResultsTracker i ri t1 t2 t3)) \<le>
     total_accepted (calls (cs @ ds) (ResultsTracker i ri t1 t2 t3)) \<and>
   total_rejected (calls cs (ResultsTracker i ri t1 t2 t3)) \<le>
     total_rejected (calls (cs @ ds) (ResultsTracker i ri t1 t2 t3))"
proof -
  let ?fresh = "ResultsTracker i ri t1 t2 t3"
  have fresh: "total_accepted ?fresh = int (length (accepted_jobs ?fresh)) \<and>
               total_rejected ?fresh = int (length (rejected_jobs ?fresh))"
    by (simp add: ResultsTracker_def)
  from calls_counters_lengths [OF fresh, of cs]
       calls_counters_mono [of "calls cs ?fresh" ds]
  show ?thesis by (simp add: calls_append)
qed

text \<open>
  C4. For a tracker with a positive report interval, after a call of \<open>report_results\<close>
  that reported (it set \<open>last_report_time\<close> to the clock reading \<open>t_stamp\<close>),
  \<open>should_report\<close> is false at that same reading, where no time has elapsed; and
  \<open>should_report\<close> at a reading \<open>now\<close> is true exactly when \<open>now\<close> minus
  \<open>last_report_time\<close> is at least \<open>report_interval\<close>, before the report as after it.
\<close>

theorem should_report_false_after_report_true_when_due:
  assumes "0 < report_interval self"
    and "fst (report_results t_check t_summary stamp t_stamp self) \<noteq> None"
  shows "last_report_time (snd (report_results t_check t_summary stamp t_stamp self)) = t_stamp \<and>
         \<not> should_report t_stamp (snd (report_results t_check t_summary stamp t_stamp self)) \<and>
         should_report now (snd (report_results t_check t_summary stamp t_stamp self)) =
           (now - t_stamp \<ge> report_interval self) \<and>
         should_report now self = (now - last_report_time self \<ge> report_interval self)"
  using assms by (simp add: report_results_def should_report_def Let_def split: if_splits)

text \<open>
  An instance: a tracker created at time 0 with the interval 5 reports at time 6 and
  stamps the report at time 7; it is not due at 7 nor at 11, and due again at 12.
\<close>

theorem should_report_false_after_report_true_when_due_witness:
  "0 < report_interval (ResultsTracker 5 43200 0 0 0) \<and>
   fst (report_results 6 6 ''2024-01-15T10:00:06'' 7 (ResultsTracker 5 43200 0 0 0)) \<noteq> None \<and>
   \<not> should_report 7
       (snd (report_results 6 6 ''2024-01-15T10:00:06'' 7 (ResultsTracker 5 43200 0 0 0))) \<and>
   \<not> should_report 11
       (snd (report_results 6 6 ''2024-01-15T10:00:06'' 7 (ResultsTracker 5 43200 0 0 0))) \<and>
   should_report 12
       (snd (report_results 6 6 ''2024-01-15T10:00:06'' 7 (ResultsTracker 5 43200 0 0 0)))"
proof -
  let ?T = "ResultsTracker 5 43200 0 0 0"
  have pos: "0 < report_interval ?T" by (simp add: ResultsTracker_def)
  have rep: "fst (report_results 6 6 ''2024-01-15T10:00:06'' 7 ?T) \<noteq> None"
    by (simp add: report_results_def should_report_def ResultsTracker_def Let_def)
  from should_report_false_after_report_true_when_due [OF pos rep, of 11]
       should_report_false_after_report_true_when_due [OF pos rep, of 12] pos rep
  show ?thesis by (simp add: ResultsTracker_def)
qed

text \<open>
  C9. \<open>add_accepted_job\<close>, \<open>add_rejected_job\<close> and \<open>increment_check_cycle\<close> leave
  \<open>last_report_time\<close> and \<open>last_rejected_report_time\<close> as they are. \<open>report_results\<close>
  sets \<open>last_report_time\<close> when \<open>should_report\<close> holds and not otherwise, and never
  touches \<open>last_rejected_report_time\<close>; \<open>report_rejected_jobs\<close> does the same with the
  two stamps exchanged. Of all tracker calls, only a \<open>report_results\<close> that is due changes
  \<open>last_report_time\<close>, and only a \<open>report_rejected_jobs\<close> that is due changes
  \<open>last_rejected_report_time\<close>.
\<close>

theorem report_timestamps_change_only_by_due_report:
  "last_report_time (add_accepted_job j stamp t self) = last_report_time self \<and>
   last_rejected_report_time (add_accepted_job j stamp t self) = last_rejected_report_time self \<and>
   last_report_time (add_rejected_job j reason stamp t self) = last_report_time self \<and>
   last_rejected_report_time (add_rejected_job j reason stamp t self) =
     last_rejected_report_time self \<and>
   last_report_time (increment_check_cycle t self) = last_report_time self \<and>
   last_rejected_report_time (increment_check_cycle t self) = last_rejected_report_time self \<and>
   last_report_time (snd (report_results t1 t2 stamp t3 self)) =
     (if should_report t1 self then t3 else last_report_time self) \<and>
   last_rejected_report_time (snd (report_results t1 t2 stamp t3 self)) =
     last_rejected_report_time self \<and>
   last_rejected_report_time (snd (report_rejected_jobs t1 t2 stamp t3 self)) =
     (if should_report_rejected t1 self then t3 else last_rejected_report_time self) \<and>
   last_report_time (snd (report_rejected_jobs t1 t2 stamp t3 self)) = last_report_time self \<and>
   (last_report_time (call c self) = last_report_time self \<or>
    (\<exists>c1 c2 s c3. c = ReportResults c1 c2 s c3 \<and> should_report c1 self)) \<and>
   (last_rejected_report_time (call c self) = last_rejected_report_time self \<or>
    (\<exists>c1 c2 s c3. c = ReportRejectedJobs c1 c2 s c3 \<and> should_report_rejected c1 self))"
  by (cases c)
     (simp_all add: add_accepted_job_def add_rejected_job_def increment_check_cycle_def
        set_login_status_def update_activity_def report_results_def report_rejected_jobs_def
        Let_def)

text \<open>
  C10. In the summary of \<open>get_results_summary\<close>, \<open>accepted_since_last_report\<close> is the
  number of accepted jobs whose \<open>accepted_timestamp\<close> is strictly greater than
  \<open>last_report_time\<close>. Accepting a job at a reading \<open>t\<close> raises it by one when
  \<open>last_report_time < t\<close> and not otherwise: a job accepted at exactly
  \<open>last_report_time\<close> leaves it as it was, while \<open>total_accepted\<close> counts the job.
\<close>

theorem accepted_since_last_report_is_strict:
  "rs_accepted_since_last_report (get_results_summary now stamp self) =
     length (filter (\<lambda>a. last_report_time self < accepted_timestamp a) (accepted_jobs self)) \<and>
   rs_accepted_since_last_report
       (get_results_summary now stamp (add_accepted_job j at_iso t self)) =
     rs_accepted_since_last_report (get_results_summary now stamp self) +
       (if last_report_time self < t then 1 else 0) \<and>
   rs_accepted_since_last_report
       (get_results_summary now stamp (add_accepted_job j at_iso (last_report_time self) self)) =
     rs_accepted_since_last_report (get_results_summary now stamp self) \<and>
   rs_total_accepted
       (get_results_summary now stamp (add_accepted_job j at_iso (last_report_time self) self)) =
     rs_total_accepted (get_results_summary now stamp self) + 1"
  by (simp add: get_results_summary_def add_accepted_job_def Let_def)

section \<open>Properties of extraction, classification and actions\<close>

text \<open>
  C7. When the wait for the table of the job list times out, \<open>extract_jobs\<close> returns
  the empty list and raises nothing.
\<close>

theorem extract_jobs_empty_on_timeout:
  assumes "page_wait_for_selector env ''section.content__table table tbody'' w =
             (Inl PlaywrightTimeoutError, w')"
  shows "extract_jobs env w = (Inr [], w')"
  using assms by (simp add: extract_jobs_def io_bind_def io_try_def io_return_def)

text \<open>An instance: the example board when it is not ready.\<close>

theorem extract_jobs_empty_on_timeout_witness:
  "page_wait_for_selector (demo_env False [matched_row] '''' None)
     ''section.content__table table tbody'' () = (Inl PlaywrightTimeoutError, ()) \<and>
   extract_jobs (demo_env False [matched_row] '''' None) () = (Inr [], ())"
proof -
  have timeout: "page_wait_for_selector (demo_env False [matched_row] '''' None)
     ''section.content__table table tbody'' () = (Inl PlaywrightTimeoutError, ())"
    by (simp add: demo_env_def io_raise_def)
  from extract_jobs_empty_on_timeout [OF timeout] timeout show ?thesis by simp
qed

subsection \<open>Facts about the example browser\<close>

lemma demo_details:
  "extract_interpreter_details_text (BeautifulSoup (demo_env ready rows details form) html) =
     details"
proof -
  have "sublist ''interpreter details'' (lower ''Interpreter details'')" by code_simp
  then show ?thesis
    by (simp add: extract_interpreter_details_text_def demo_env_def demo_soup_def Let_def)
qed

lemma demo_extract_blank:
  "extract_jobs (demo_env True [blank_row] '''' None) () = (Inr [blank_job], ())"
  by (simp add: extract_jobs_def extract_row_def demo_env_def blank_row_def blank_job_def
        io_bind_def io_try_def io_return_def io_raise_def strip_def)

lemma demo_extract_rows:
  "extract_jobs (demo_env True [spanning_row, short_row, matched_row] '''' None) () =
     (Inr [matched_job], ())"
  by (simp add: extract_jobs_def extract_row_def demo_env_def spanning_row_def short_row_def
        matched_row_def matched_job_def io_bind_def io_try_def io_return_def io_raise_def
        strip_def is_space_def)

subsection \<open>Rules for sequencing and for \<open>try\<close>\<close>

lemma io_bind_InrE:
  assumes "io_bind m f w = (Inr b, w')"
  obtains a w1 where "m w = (Inr a, w1)" and "f a w1 = (Inr b, w')"
  using assms by (auto simp: io_bind_def split: prod.splits sum.splits)

lemma io_bind_unit_True:
  "io_bind m (\<lambda>_. io_return True) w = (Inr True, w') \<Longrightarrow> m w = (Inr (), w')"
  by (auto simp: io_bind_def io_return_def split: prod.splits sum.splits)

lemma io_try_never_raises: "\<exists>b. fst (io_try body (\<lambda>e. io_return d) w) = Inr b"
  by (simp add: io_try_def io_return_def split: prod.splits sum.splits)

lemma io_try_True:
  "io_try body (\<lambda>e. io_return False) w = (Inr True, w') \<Longrightarrow> body w = (Inr True, w')"
  by (auto simp: io_try_def io_return_def split: prod.splits sum.splits)

subsection \<open>Classification\<close>

text \<open>
  C1. When the detail page loads and its interpreter details contain a member of the
  exclude list, case-insensitively, \<open>is_telephone_job\<close> returns \<open>False\<close>, so the job is
  not accepted, whatever the accept type is and whether or not the details contain it
  too: the exclude list is tested first.
\<close>

theorem exclude_match_wins_over_accept_match:
  assumes "page_goto env view_url w = (Inr (), w1)"
    and "page_content env w1 = (Inr html, w2)"
    and "ex \<in> set excluded"
    and "sublist (lower ex) (lower (extract_interpreter_details_text (BeautifulSoup env html)))"
  shows "is_telephone_job env view_url accept_type excluded w = (Inr False, w2)"
  using assms
  by (auto simp: is_telephone_job_def io_try_def io_bind_def io_return_def Let_def list_ex_iff)

text \<open>
  An instance: details that contain both \<open>Face-to-Face\<close>, which is excluded, and the
  accept type \<open>Telephone interpreting\<close>.
\<close>

theorem exclude_match_wins_over_accept_match_witness:
  "sublist (lower ''Face-to-Face'') (lower ''Face-to-Face or Telephone interpreting'') \<and>
   sublist (lower ''Telephone interpreting'') (lower ''Face-to-Face or Telephone interpreting'') \<and>
   is_telephone_job (demo_env True [matched_row] ''Face-to-Face or Telephone interpreting'' None)
     ''/interpreter-jobs/1'' ''Telephone interpreting'' (exclude_types demo_config) () =
     (Inr False, ())"
proof -
  let ?E = "demo_env True [matched_row] ''Face-to-Face or Telephone interpreting'' None"
  have goto: "page_goto ?E ''/interpreter-jobs/1'' () = (Inr (), ())"
    by (simp add: demo_env_def io_return_def)
  have content: "page_content ?E () = (Inr ''<html>'', ())"
    by (simp add: demo_env_def io_return_def)
  have mem: "''Face-to-Face'' \<in> set (exclude_types demo_config)"
    by (simp add: demo_config_def)
  have ex: "sublist (lower ''Face-to-Face'') (lower ''Face-to-Face or Telephone interpreting'')"
    by code_simp
  have acc: "sublist (lower ''Telephone interpreting'')
               (lower ''Face-to-Face or Telephone interpreting'')"
    by code_simp
  have ex': "sublist (lower ''Face-to-Face'')
               (lower (extract_interpreter_details_text (BeautifulSoup ?E ''<html>'')))"
    using ex by (simp only: demo_details)
  from exclude_match_wins_over_accept_match [OF goto content mem ex'] ex acc
  show ?thesis by simp
qed

subsection \<open>Accept and reject actions\<close>

lemma accept_from_board_no_form:
  "page_query_selector env (accept_form_selector (strip (split_slash_first ref))) w =
     (Inr None, w1) \<longrightarrow>
   accept_from_board env ref w = (Inr False, w1)"
  by (simp add: accept_from_board_def io_try_def io_bind_def io_return_def Let_def)

lemma accept_from_board_no_button:
  "page_query_selector env (accept_form_selector (strip (split_slash_first ref))) w =
     (Inr (Some form), w1) \<and>
   el_query_selector env form ''button.btn.btn--primary'' w1 = (Inr None, w2) \<and>
   el_query_selector env form submit_button_selector w2 = (Inr None, w3) \<longrightarrow>
   accept_from_board env ref w = (Inr False, w3)"
  by (simp add: accept_from_board_def io_try_def io_bind_def io_return_def Let_def)

lemma reject_on_detail_no_control:
  "page_query_selector env reject_form_selector w = (Inr None, w1) \<and>
   page_query_selector env ''input.btn.btn--reject, .btn.btn--reject'' w1 = (Inr None, w2) \<longrightarrow>
   reject_on_detail env w = (Inr False, w2)"
  by (simp add: reject_on_detail_def io_try_def io_bind_def io_return_def)

lemma accept_from_board_True:
  "accept_from_board env ref w = (Inr True, w') \<longrightarrow>
   (\<exists>form v1 primary v2 btn v3.
      page_query_selector env (accept_form_selector (strip (split_slash_first ref))) w =
        (Inr (Some form), v1) \<and>
      el_query_selector env form ''button.btn.btn--primary'' v1 = (Inr primary, v2) \<and>
      (primary = Some btn \<and> v3 = v2 \<or>
       primary = None \<and>
       el_query_selector env form submit_button_selector v2 = (Inr (Some btn), v3)) \<and>
      el_click env btn v3 = (Inr (), w'))"
  unfolding accept_from_board_def Let_def
  apply (rule impI)
  apply (drule io_try_True)
  apply (erule io_bind_InrE)
  apply (clarsimp split: option.splits simp: io_return_def)
  apply (erule io_bind_InrE)+
  apply (clarsimp split: option.splits simp: io_return_def)
   apply (erule io_bind_unit_True)+
  done

lemma reject_on_detail_True:
  "reject_on_detail env w = (Inr True, w') \<longrightarrow>
   (\<exists>found v1 btn v2.
      page_query_selector env reject_form_selector w = (Inr found, v1) \<and>
      (found = None \<and>
       page_query_selector env ''input.btn.btn--reject, .btn.btn--reject'' v1 =
         (Inr (Some btn), v2) \<or>
       (\<exists>form inner. found = Some form \<and>
          el_query_selector env form reject_submit_selector v1 = (Inr inner, v2) \<and>
          (inner = Some btn \<or> inner = None \<and> btn = form))) \<and>
      el_click env btn v2 = (Inr (), w'))"
  unfolding reject_on_detail_def Let_def
  apply (rule impI)
  apply (drule io_try_True)
  apply (erule io_bind_InrE)
  apply (clarsimp split: option.splits simp: io_return_def)
   apply (erule io_bind_InrE)
   apply (clarsimp split: option.splits simp: io_return_def)
   apply (erule io_bind_unit_True)
  apply (erule io_bind_InrE)
  apply (drule io_bind_unit_True)
  subgoal for v1 form inner v2
    by (cases inner) auto
  done

text \<open>
  C8. \<open>accept_from_board\<close> and \<open>reject_on_detail\<close> never raise: each returns a truth
  value. \<open>accept_from_board\<close> returns \<open>False\<close> when the form of the job is not found,
  and when the form has neither of the two buttons; \<open>reject_on_detail\<close> returns \<open>False\<close>
  when neither the reject form nor the reject button is found. Each returns \<open>True\<close> only
  when every page operation it ran returned normally, the control was found and the
  click on it returned; so it returns \<open>False\<close> whenever one of its page operations raises.
  (Inside a reject form that has no button, \<open>reject_on_detail\<close> clicks the form itself.)
\<close>

theorem actions_return_false_and_never_raise:
  "(\<exists>b. fst (accept_from_board env ref w) = Inr b) \<and>
   (\<exists>b. fst (reject_on_detail env w) = Inr b) \<and>
   (page_query_selector env (accept_form_selector (strip (split_slash_first ref))) w =
      (Inr None, w1) \<longrightarrow>
    accept_from_board env ref w = (Inr False, w1)) \<and>
   (page_query_selector env (accept_form_selector (strip (split_slash_first ref))) w =
      (Inr (Some form), w1) \<and>
    el_query_selector env form ''button.btn.btn--primary'' w1 = (Inr None, w2) \<and>
    el_query_selector env form submit_button_selector w2 = (Inr None, w3) \<longrightarrow>
    accept_from_board env ref w = (Inr False, w3)) \<and>
   (page_query_selector env reject_form_selector w = (Inr None, w1) \<and>
    page_query_selector env ''input.btn.btn--reject, .btn.btn--reject'' w1 = (Inr None, w2) \<longrightarrow>
    reject_on_detail env w = (Inr False, w2)) \<and>
   (accept_from_board env ref w = (Inr True, w') \<longrightarrow>
    (\<exists>form v1 primary v2 btn v3.
       page_query_selector env (accept_form_selector (strip (split_slash_first ref))) w =
         (Inr (Some form), v1) \<and>
       el_query_selector env form ''button.btn.btn--primary'' v1 = (Inr primary, v2) \<and>
       (primary = Some btn \<and> v3 = v2 \<or>
        primary = None \<and>
        el_query_selector env form submit_button_selector v2 = (Inr (Some btn), v3)) \<and>
       el_click env btn v3 = (Inr (), w'))) \<and>
   (reject_on_detail env w = (Inr True, w') \<longrightarrow>
    (\<exists>found v1 btn v2.
       page_query_selector env reject_form_selector w = (Inr found, v1) \<and>
       (found = None \<and>
        page_query_selector env ''input.btn.btn--reject, .btn.btn--reject'' v1 =
          (Inr (Some btn), v2) \<or>
        (\<exists>form inner. found = Some form \<and>
           el_query_selector env form reject_submit_selector v1 = (Inr inner, v2) \<and>
           (inner = Some btn \<or> inner = None \<and> btn = form))) \<and>
       el_click env btn v2 = (Inr (), w')))"
proof -
  have a: "\<exists>b. fst (accept_from_board env ref w) = Inr b"
    unfolding accept_from_board_def by (rule io_try_never_raises)
  have r: "\<exists>b. fst (reject_on_detail env w) = Inr b"
    unfolding reject_on_detail_def by (rule io_try_never_raises)
  show ?thesis
    apply (rule conjI, rule a)
    apply (rule conjI, rule r)
    apply (rule conjI, rule accept_from_board_no_form)
    apply (rule conjI, rule accept_from_board_no_button)
    apply (rule conjI, rule reject_on_detail_no_control)
    apply (rule conjI, rule accept_from_board_True)
    apply (rule reject_on_detail_True)
    done
qed

text \<open>
  Instances: a page without any form, where both actions return \<open>False\<close>; a page whose
  form has no button, where \<open>accept_from_board\<close> returns \<open>False\<close>; and a page whose form
  has a button, where both return \<open>True\<close> after the click.
\<close>

theorem actions_return_false_and_never_raise_witness:
  "accept_from_board (demo_env True [matched_row] '''' None) ''101/A'' () = (Inr False, ()) \<and>
   reject_on_detail (demo_env True [matched_row] '''' None) () = (Inr False, ()) \<and>
   accept_from_board (demo_env True [matched_row] '''' (Some (Form False))) ''101/A'' () =
     (Inr False, ()) \<and>
   accept_from_board (demo_env True [matched_row] '''' (Some (Form True))) ''101/A'' () =
     (Inr True, ()) \<and>
   reject_on_detail (demo_env True [matched_row] '''' (Some (Form True))) () = (Inr True, ()) \<and>
   el_click (demo_env True [matched_row] '''' (Some (Form True))) Button () = (Inr (), ())"
proof -
  let ?none = "demo_env True [matched_row] '''' None"
  let ?bare = "demo_env True [matched_row] '''' (Some (Form False))"
  let ?full = "demo_env True [matched_row] '''' (Some (Form True))"
  have q_none: "page_query_selector ?none sel () = (Inr None, ())" for sel
    by (simp add: demo_env_def io_return_def)
  have q_bare: "page_query_selector ?bare sel () = (Inr (Some (Form False)), ())" for sel
    by (simp add: demo_env_def io_return_def)
  have b_bare: "el_query_selector ?bare (Form False) sel () = (Inr None, ())" for sel
    by (simp add: demo_env_def io_return_def)
  have a_full: "accept_from_board ?full ''101/A'' () = (Inr True, ())"
    by (simp add: accept_from_board_def demo_env_def io_try_def io_bind_def io_return_def Let_def)
  have r_full: "reject_on_detail ?full () = (Inr True, ())"
    by (simp add: reject_on_detail_def demo_env_def io_try_def io_bind_def io_return_def Let_def)
  have click: "el_click ?full Button () = (Inr (), ())"
    by (simp add: demo_env_def io_return_def)
  from actions_return_false_and_never_raise [of ?none "''101/A''" "()" "()" _ _ _ "()"]
       q_none
  have 1: "accept_from_board ?none ''101/A'' () = (Inr False, ())"
    and 2: "reject_on_detail ?none () = (Inr False, ())"
    by simp_all
  from actions_return_false_and_never_raise
         [of ?bare "''101/A''" "()" "()" "Form False" "()" "()"] q_bare b_bare
  have 3: "accept_from_board ?bare ''101/A'' () = (Inr False, ())"
    by simp
  from 1 2 3 a_full r_full click show ?thesis by simp
qed

subsection \<open>Extraction\<close>

lemma extract_row_Some:
  assumes "extract_row env row w = (Inr (Some j), w')"
  shows "\<exists>w1 cells w2 t w3.
           el_query_selector_all env row ''td[colspan]'' w = (Inr [], w1) \<and>
           el_query_selector_all env row ''td.table__data'' w1 = (Inr cells, w2) \<and>
           8 \<le> length cells \<and>
           el_inner_text env (cells ! 0) w2 = (Inr t, w3) \<and>
           j ''ref'' = Some (strip t)"
  using assms unfolding extract_row_def
  apply -
  apply (erule io_bind_InrE)
  apply (clarsimp simp: io_return_def split: if_splits)
  apply (erule io_bind_InrE)
  apply (clarsimp simp: io_return_def split: if_splits)
  apply (erule io_bind_InrE)+
  apply (clarsimp simp: io_return_def)
  done

lemma extract_row_spanning:
  "el_query_selector_all env row ''td[colspan]'' w = (Inr (c # cs), w1) \<longrightarrow>
   extract_row env row w = (Inr None, w1)"
  by (simp add: extract_row_def io_bind_def io_return_def)

lemma extract_row_short:
  "el_query_selector_all env row ''td[colspan]'' w = (Inr [], w1) \<and>
   el_query_selector_all env row ''td.table__data'' w1 = (Inr cells, w2) \<and>
   length cells < 8 \<longrightarrow>
   extract_row env row w = (Inr None, w2)"
  by (simp add: extract_row_def io_bind_def io_return_def)

lemma extract_rows_origin:
  "extract_rows env rows acc w = (Inr jobs, w') \<Longrightarrow> j \<in> set jobs \<Longrightarrow>
     j \<in> set acc \<or> (\<exists>row \<in> set rows. \<exists>v v'. extract_row env row v = (Inr (Some j), v'))"
proof (induction rows arbitrary: acc w)
  case Nil
  then show ?case by simp
next
  case (Cons row rows)
  obtain r v where step: "extract_row env row w = (r, v)"
    by (cases "extract_row env row w")
  show ?case
  proof (cases r)
    case (Inl e)
    with step Cons.prems show ?thesis by simp
  next
    case (Inr found)
    show ?thesis
    proof (cases found)
      case None
      with step Inr Cons.prems have "extract_rows env rows acc v = (Inr jobs, w')" by simp
      from Cons.IH [OF this Cons.prems(2)] show ?thesis by auto
    next
      case (Some j')
      with step Inr Cons.prems have "extract_rows env rows (acc @ [j']) v = (Inr jobs, w')"
        by simp
      from Cons.IH [OF this Cons.prems(2)] step Inr Some show ?thesis by auto
    qed
  qed
qed

lemma extract_jobs_origin:
  assumes "extract_jobs env w = (Inr jobs, w')" and "j \<in> set jobs"
  shows "\<exists>rows v0 v1 row v v'.
           page_query_selector_all env ''tbody tr.table__row'' v0 = (Inr rows, v1) \<and>
           row \<in> set rows \<and> extract_row env row v = (Inr (Some j), v')"
proof -
  from assms(1) [unfolded extract_jobs_def]
  obtain ready v0 where
    k: "(if \<not> ready then io_return []
          else io_bind (page_query_selector_all env ''tbody tr.table__row'')
                 (\<lambda>rows. extract_rows env rows [])) v0 = (Inr jobs, w')"
    by (rule io_bind_InrE)
  from k assms(2) have ready by (auto simp: io_return_def split: if_splits)
  with k obtain rows v1 where
    q: "page_query_selector_all env ''tbody tr.table__row'' v0 = (Inr rows, v1)"
    and l: "extract_rows env rows [] v1 = (Inr jobs, w')"
    by (auto elim: io_bind_InrE)
  from extract_rows_origin [OF l assms(2)] q show ?thesis by auto
qed

text \<open>
  C6, as the claim states it, fails: a row with eight data cells and no spanning cell
  whose first cell is blank passes both checks, and \<open>extract_jobs\<close> returns its job with
  the empty \<open>ref\<close>.
\<close>

theorem extract_jobs_keeps_blank_ref:
  "el_query_selector_all (demo_env True [blank_row] '''' None) blank_row ''td[colspan]'' () =
     (Inr [], ()) \<and>
   el_query_selector_all (demo_env True [blank_row] '''' None) blank_row ''td.table__data'' () =
     (Inr [Cell '''', Cell '''', Cell '''', Cell '''', Cell '''', Cell '''', Cell '''', Cell ''''],
      ()) \<and>
   extract_jobs (demo_env True [blank_row] '''' None) () = (Inr [blank_job], ()) \<and>
   blank_job ''ref'' = Some ''''"
  by (simp add: demo_extract_blank)
     (simp add: demo_env_def blank_row_def blank_job_def io_return_def)

text \<open>
  C6, amended. Every job that \<open>extract_jobs\<close> returns was built from a row of the
  table for which the query for spanning cells returned none and the query for data
  cells returned at least 8; its \<open>ref\<close> is the stripped text of the first of these cells,
  empty or not. A row with a spanning cell, and a row with fewer than 8 data cells, gives
  no job.
\<close>

theorem extracted_jobs_come_from_full_rows:
  "(extract_jobs env w = (Inr jobs, w') \<and> j \<in> set jobs \<longrightarrow>
    (\<exists>rows v0 v1 row v v2 cells v3 t v4.
       page_query_selector_all env ''tbody tr.table__row'' v0 = (Inr rows, v1) \<and>
       row \<in> set rows \<and>
       el_query_selector_all env row ''td[colspan]'' v = (Inr [], v2) \<and>
       el_query_selector_all env row ''td.table__data'' v2 = (Inr cells, v3) \<and>
       8 \<le> length cells \<and>
       el_inner_text env (cells ! 0) v3 = (Inr t, v4) \<and>
       j ''ref'' = Some (strip t))) \<and>
   (el_query_selector_all env r ''td[colspan]'' w = (Inr (c # cs), w1) \<longrightarrow>
    extract_row env r w = (Inr None, w1)) \<and>
   (el_query_selector_all env r ''td[colspan]'' w = (Inr [], w1) \<and>
    el_query_selector_all env r ''td.table__data'' w1 = (Inr few, w2) \<and>
    length few < 8 \<longrightarrow>
    extract_row env r w = (Inr None, w2))"
proof (intro conjI)
  show "extract_jobs env w = (Inr jobs, w') \<and> j \<in> set jobs \<longrightarrow>
    (\<exists>rows v0 v1 row v v2 cells v3 t v4.
       page_query_selector_all env ''tbody tr.table__row'' v0 = (Inr rows, v1) \<and>
       row \<in> set rows \<and>
       el_query_selector_all env row ''td[colspan]'' v = (Inr [], v2) \<and>
       el_query_selector_all env row ''td.table__data'' v2 = (Inr cells, v3) \<and>
       8 \<le> length cells \<and>
       el_inner_text env (cells ! 0) v3 = (Inr t, v4) \<and>
       j ''ref'' = Some (strip t))"
  proof
    assume a: "extract_jobs env w = (Inr jobs, w') \<and> j \<in> set jobs"
    then have e: "extract_jobs env w = (Inr jobs, w')" and m: "j \<in> set jobs"
      by simp_all
    from extract_jobs_origin [OF e m] obtain rows v0 v1 row v v' where
      q: "page_query_selector_all env ''tbody tr.table__row'' v0 = (Inr rows, v1)"
      and mem: "row \<in> set rows"
      and row: "extract_row env row v = (Inr (Some j), v')"
      by (elim exE conjE)
    from extract_row_Some [OF row] obtain v2 cells v3 t v4 where
      "el_query_selector_all env row ''td[colspan]'' v = (Inr [], v2)"
      "el_query_selector_all env row ''td.table__data'' v2 = (Inr cells, v3)"
      "8 \<le> length cells"
      "el_inner_text env (cells ! 0) v3 = (Inr t, v4)"
      "j ''ref'' = Some (strip t)"
      by (elim exE conjE)
    with q mem show "\<exists>rows v0 v1 row v v2 cells v3 t v4.
       page_query_selector_all env ''tbody tr.table__row'' v0 = (Inr rows, v1) \<and>
       row \<in> set rows \<and>
       el_query_selector_all env row ''td[colspan]'' v = (Inr [], v2) \<and>
       el_query_selector_all env row ''td.table__data'' v2 = (Inr cells, v3) \<and>
       8 \<le> length cells \<and>
       el_inner_text env (cells ! 0) v3 = (Inr t, v4) \<and>
       j ''ref'' = Some (strip t)"
      by (intro exI conjI)
  qed
qed (rule extract_row_spanning, rule extract_row_short)

text \<open>
  An instance: of a placeholder row, a row of three cells and a full row, only the full
  row gives a job, with the \<open>ref\<close> of its first cell.
\<close>

theorem extracted_jobs_come_from_full_rows_witness:
  "extract_jobs (demo_env True [spanning_row, short_row, matched_row] '''' None) () =
     (Inr [matched_job], ()) \<and>
   matched_job \<in> set [matched_job] \<and>
   (\<exists>t. matched_job ''ref'' = Some (strip t)) \<and>
   extract_row (demo_env True [spanning_row, short_row, matched_row] '''' None)
     spanning_row () = (Inr None, ()) \<and>
   extract_row (demo_env True [spanning_row, short_row, matched_row] '''' None)
     short_row () = (Inr None, ())"
proof -
  let ?E = "demo_env True [spanning_row, short_row, matched_row] '''' None"
  have span: "el_query_selector_all ?E spanning_row ''td[colspan]'' () = (Inr [Cell ''''], ())"
    by (simp add: demo_env_def spanning_row_def io_return_def)
  have short1: "el_query_selector_all ?E short_row ''td[colspan]'' () = (Inr [], ())"
    by (simp add: demo_env_def short_row_def io_return_def)
  have short2: "el_query_selector_all ?E short_row ''td.table__data'' () =
                  (Inr [Cell ''102/B'', Cell ''2024-01-15 11:00'', Cell ''Matched''], ())"
    by (simp add: demo_env_def short_row_def io_return_def)
  note jobs = demo_extract_rows
  from extracted_jobs_come_from_full_rows
         [of ?E "()" "[matched_job]" "()" matched_job spanning_row "Cell ''''" "[]" "()"]
       jobs span
  have 1: "\<exists>t. matched_job ''ref'' = Some (strip t)"
    and 2: "extract_row ?E spanning_row () = (Inr None, ())"
    by auto
  from extracted_jobs_come_from_full_rows
         [of ?E "()" "[matched_job]" "()" matched_job short_row _ _ "()"
             "[Cell ''102/B'', Cell ''2024-01-15 11:00'', Cell ''Matched'']" "()"]
       short1 short2
  have 3: "extract_row ?E short_row () = (Inr None, ())"
    by simp
  from 1 2 3 jobs show ?thesis by simp
qed

section \<open>Properties of the cycle\<close>

subsection \<open>What each step leaves as it is\<close>

lemma on_world_frame:
  "on_world f m = (r, m') \<Longrightarrow>
     accept_actions m' = accept_actions m \<and> tracker_global m' = tracker_global m"
  by (auto simp: on_world_def split: prod.splits)

lemma job_ref_frame: "job_ref j m = (r, m') \<Longrightarrow> m' = m"
  by (auto simp: job_ref_def io_raise_def io_return_def split: option.splits)

lemma get_tracker_accept_actions:
  "get_tracker env m = (t, m') \<Longrightarrow> accept_actions m' = accept_actions m"
  by (auto simp: get_tracker_def split: option.splits prod.splits)

lemma module_add_accepted_job_accept_actions:
  "module_add_accepted_job env j m = (r, m') \<Longrightarrow> accept_actions m' = accept_actions m"
  by (auto simp: module_add_accepted_job_def split: prod.splits dest: get_tracker_accept_actions)

lemma module_add_rejected_job_accept_actions:
  "module_add_rejected_job env j reason m = (r, m') \<Longrightarrow> accept_actions m' = accept_actions m"
  by (auto simp: module_add_rejected_job_def split: prod.splits dest: get_tracker_accept_actions)

lemma count_accept_action_frame:
  "count_accept_action m = (r, m') \<Longrightarrow> accept_actions m' = Suc (accept_actions m) \<and> r = Inr ()"
  by (auto simp: count_accept_action_def)

lemma on_world_recorded:
  "on_world f m = (r, m') \<Longrightarrow> recorded_rejections m' = recorded_rejections m"
  by (auto simp: on_world_def recorded_rejections_def split: prod.splits)

lemma count_accept_action_recorded:
  "count_accept_action m = (r, m') \<Longrightarrow> recorded_rejections m' = recorded_rejections m"
  by (auto simp: count_accept_action_def recorded_rejections_def)

lemma get_tracker_recorded:
  "get_tracker env m = (t, m') \<Longrightarrow> rejected_jobs t = recorded_rejections m"
  by (auto simp: get_tracker_def recorded_rejections_def ResultsTracker_def
        split: option.splits prod.splits)

lemma module_add_accepted_job_recorded:
  "module_add_accepted_job env j m = (r, m') \<Longrightarrow>
     recorded_rejections m' = recorded_rejections m"
  by (auto simp: module_add_accepted_job_def recorded_rejections_def add_accepted_job_def
        split: prod.splits dest: get_tracker_recorded)

lemma module_add_rejected_job_recorded:
  "module_add_rejected_job env j reason m = (r, m') \<Longrightarrow>
     \<exists>x. recorded_rejections m' = recorded_rejections m @ [x] \<and> rejection_reason x = reason"
  by (auto simp: module_add_rejected_job_def recorded_rejections_def add_rejected_job_def
        split: prod.splits dest: get_tracker_recorded)

subsection \<open>The cap on accept actions\<close>

text \<open>
  One pass of the loop body performs at most one accept action, and when it performs one
  it does not leave by \<open>continue\<close>: it runs to \<open>accepted += 1\<close> or raises.
\<close>

lemma cycle_step_accepts:
  "cycle_step env cfg j m = (r, m') \<Longrightarrow>
     accept_actions m' = accept_actions m \<or>
     (accept_actions m' = Suc (accept_actions m) \<and> r \<noteq> Inr False)"
  unfolding cycle_step_def
  by (auto simp: io_bind_def io_return_def
        split: prod.splits sum.splits option.splits if_splits
        dest!: on_world_frame job_ref_frame module_add_accepted_job_accept_actions
               module_add_rejected_job_accept_actions count_accept_action_frame)

lemma run_once_step_accepts:
  "run_once_step env cfg j m = (r, m') \<Longrightarrow>
     accept_actions m' = accept_actions m \<or>
     (accept_actions m' = Suc (accept_actions m) \<and> r \<noteq> Inr False)"
  unfolding run_once_step_def
  by (auto simp: io_bind_def io_return_def
        split: prod.splits sum.splits option.splits if_splits
        dest!: on_world_frame job_ref_frame count_accept_action_frame)

lemma cycle_loop_accepts:
  "accept_actions (snd (cycle_loop env cfg jobs accepted m)) \<le>
     accept_actions m + nat (MAX_ACCEPT_PER_RUN cfg - accepted)"
proof (induction jobs arbitrary: accepted m)
  case Nil
  show ?case by simp
next
  case (Cons j jobs)
  show ?case
  proof (cases "accepted \<ge> MAX_ACCEPT_PER_RUN cfg")
    case True
    then show ?thesis by simp
  next
    case False
    obtain r m' where step: "cycle_step env cfg j m = (r, m')"
      by (cases "cycle_step env cfg j m")
    note acc = cycle_step_accepts [OF step]
    show ?thesis
    proof (cases r)
      case (Inl e)
      with step False acc show ?thesis by auto
    next
      case (Inr counted)
      from Cons.IH [of "if counted then accepted + 1 else accepted" m']
      show ?thesis using step False acc Inr by (cases counted) auto
    qed
  qed
qed

lemma run_once_loop_accepts:
  "accept_actions (snd (run_once_loop env cfg jobs accepted m)) \<le>
     accept_actions m + nat (MAX_ACCEPT_PER_RUN cfg - accepted)"
proof (induction jobs arbitrary: accepted m)
  case Nil
  show ?case by simp
next
  case (Cons j jobs)
  show ?case
  proof (cases "accepted \<ge> MAX_ACCEPT_PER_RUN cfg")
    case True
    then show ?thesis by simp
  next
    case False
    obtain r m' where step: "run_once_step env cfg j m = (r, m')"
      by (cases "run_once_step env cfg j m")
    note acc = run_once_step_accepts [OF step]
    show ?thesis
    proof (cases r)
      case (Inl e)
      with step False acc show ?thesis by auto
    next
      case (Inr counted)
      from Cons.IH [of "if counted then accepted + 1 else accepted" m']
      show ?thesis using step False acc Inr by (cases counted) auto
    qed
  qed
qed

text \<open>
  C2. Whatever the browser does and whatever jobs are extracted, one call of
  \<open>persistent_bot_cycle\<close>, and one call of \<open>run_once\<close>, performs at most
  \<open>MAX_ACCEPT_PER_RUN\<close> accept actions (none when the cap is zero or negative), also
  when the call ends by an exception.
\<close>

theorem accept_actions_within_cap:
  "accept_actions (snd (persistent_bot_cycle env cfg jobs_url m)) \<le>
     accept_actions m + nat (MAX_ACCEPT_PER_RUN cfg) \<and>
   accept_actions (snd (run_once env cfg jobs_url m)) \<le>
     accept_actions m + nat (MAX_ACCEPT_PER_RUN cfg)"
proof
  show "accept_actions (snd (persistent_bot_cycle env cfg jobs_url m)) \<le>
          accept_actions m + nat (MAX_ACCEPT_PER_RUN cfg)"
  proof -
    obtain r m1 where pre:
      "io_bind (on_world (page_goto env jobs_url)) (\<lambda>_. on_world (extract_jobs env)) m = (r, m1)"
      by (cases "io_bind (on_world (page_goto env jobs_url)) (\<lambda>_. on_world (extract_jobs env)) m")
    then have same: "accept_actions m1 = accept_actions m"
      by (auto simp: io_bind_def split: prod.splits sum.splits dest!: on_world_frame)
    show ?thesis
    proof (cases r)
      case (Inl e)
      with pre same show ?thesis by (simp add: persistent_bot_cycle_def)
    next
      case (Inr jobs)
      from cycle_loop_accepts [of env cfg jobs 0 m1] pre same Inr
      show ?thesis by (auto simp: persistent_bot_cycle_def split: prod.splits)
    qed
  qed
next
  show "accept_actions (snd (run_once env cfg jobs_url m)) \<le>
          accept_actions m + nat (MAX_ACCEPT_PER_RUN cfg)"
  proof -
    have loop: "accept_actions (snd (run_once_loop env cfg jobs 0 m1)) \<le>
                  accept_actions m + nat (MAX_ACCEPT_PER_RUN cfg)"
      if "accept_actions m1 = accept_actions m" for jobs m1
      using run_once_loop_accepts [of env cfg jobs 0 m1] that by simp
    show ?thesis
      unfolding run_once_def
      by (auto simp: io_bind_def split: prod.splits sum.splits
            dest!: on_world_frame intro!: loop)
  qed
qed

text \<open>
  An instance: on a board with three matched telephone jobs and the cap 2, both cycles
  accept two jobs and stop.
\<close>

theorem accept_actions_within_cap_witness:
  "MAX_ACCEPT_PER_RUN capped_config = 2 \<and>
   length three_rows = 3 \<and>
   fst (persistent_bot_cycle
          (demo_env True three_rows ''Telephone interpreting'' (Some (Form True)))
          capped_config ''https://portal.atozinterpreting.com/interpreter-jobs''
          demo_machine) = Inr 2 \<and>
   accept_actions
     (snd (persistent_bot_cycle
             (demo_env True three_rows ''Telephone interpreting'' (Some (Form True)))
             capped_config ''https://portal.atozinterpreting.com/interpreter-jobs''
             demo_machine)) = 2 \<and>
   accept_actions
     (snd (run_once (demo_env True three_rows ''Telephone interpreting'' (Some (Form True)))
             capped_config ''https://portal.atozinterpreting.com/interpreter-jobs''
             demo_machine)) = 2"
proof -
  let ?E = "demo_env True three_rows ''Telephone interpreting'' (Some (Form True))"
  let ?url = "''https://portal.atozinterpreting.com/interpreter-jobs''"
  have cap: "MAX_ACCEPT_PER_RUN capped_config = 2"
    by (simp add: capped_config_def)
  have rows: "length three_rows = 3" by (simp add: three_rows_def)
  have p: "fst (persistent_bot_cycle ?E capped_config ?url demo_machine) = Inr 2"
    by code_simp
  have pa: "2 \<le> accept_actions (snd (persistent_bot_cycle ?E capped_config ?url demo_machine))"
    by code_simp
  have ra: "2 \<le> accept_actions (snd (run_once ?E capped_config ?url demo_machine))"
    by code_simp
  have start: "accept_actions demo_machine = 0" by (simp add: demo_machine_def)
  from accept_actions_within_cap [of ?E capped_config ?url demo_machine] cap start
  have "accept_actions (snd (persistent_bot_cycle ?E capped_config ?url demo_machine)) \<le> 2"
    and "accept_actions (snd (run_once ?E capped_config ?url demo_machine)) \<le> 2"
    by simp_all
  with p pa ra cap rows show ?thesis by simp
qed

subsection \<open>The recorded rejection reason\<close>

lemma cycle_step_recorded:
  "cycle_step env cfg j m = (r, m') \<Longrightarrow>
     recorded_rejections m' = recorded_rejections m \<or>
     (\<exists>x. recorded_rejections m' = recorded_rejections m @ [x] \<and>
          rejection_reason x = face_to_face_reason)"
  unfolding cycle_step_def
  by (auto simp: io_bind_def io_return_def
        split: prod.splits sum.splits option.splits if_splits
        dest!: on_world_recorded job_ref_frame module_add_accepted_job_recorded
               module_add_rejected_job_recorded count_accept_action_recorded)

lemma cycle_loop_recorded:
  "\<exists>new. recorded_rejections (snd (cycle_loop env cfg jobs accepted m)) =
            recorded_rejections m @ new \<and>
         list_all (\<lambda>x. rejection_reason x = face_to_face_reason) new"
proof (induction jobs arbitrary: accepted m)
  case Nil
  show ?case by simp
next
  case (Cons j jobs)
  show ?case
  proof (cases "accepted \<ge> MAX_ACCEPT_PER_RUN cfg")
    case True
    then show ?thesis by simp
  next
    case False
    obtain r m' where step: "cycle_step env cfg j m = (r, m')"
      by (cases "cycle_step env cfg j m")
    from cycle_step_recorded [OF step] obtain one where
      one: "recorded_rejections m' = recorded_rejections m @ one"
        "list_all (\<lambda>x. rejection_reason x = face_to_face_reason) one"
      by (elim disjE exE conjE) (rule that [of "[]"], simp, simp, rule that [of "[_]"], simp, simp)
    show ?thesis
    proof (cases r)
      case (Inl e)
      with step False one show ?thesis by auto
    next
      case (Inr counted)
      from Cons.IH [of "if counted then accepted + 1 else accepted" m']
      obtain more where
        "recorded_rejections
           (snd (cycle_loop env cfg jobs (if counted then accepted + 1 else accepted) m')) =
         recorded_rejections m' @ more"
        "list_all (\<lambda>x. rejection_reason x = face_to_face_reason) more"
        by (elim exE conjE)
      with one step False Inr show ?thesis
        by (intro exI [of _ "one @ more"]) simp
    qed
  qed
qed

text \<open>
  C5, as the claim states it, fails: on a board with one matched job whose details read
  \<open>Onsite visit\<close>, the excluded type \<open>Onsite\<close> matches, the job is rejected, and the
  recorded reason is \<open>Face-to-face job (not telephone translation)\<close>, which does not
  contain \<open>Onsite\<close> in any letter case.
\<close>

theorem recorded_rejection_reason_ignores_matched_type:
  "map rejection_reason
     (recorded_rejections
        (snd (persistent_bot_cycle (demo_env True [matched_row] ''Onsite visit'' (Some (Form True)))
                demo_config ''https://portal.atozinterpreting.com/interpreter-jobs''
                demo_machine))) =
     [''Face-to-face job (not telephone translation)''] \<and>
   sublist (lower ''Onsite'') (lower ''Onsite visit'') \<and>
   \<not> sublist ''Onsite'' ''Face-to-face job (not telephone translation)'' \<and>
   \<not> sublist (lower ''Onsite'') (lower ''Face-to-face job (not telephone translation)'')"
  by code_simp

text \<open>
  C5, amended. Every rejection that a cycle records carries the one fixed reason
  \<open>Face-to-face job (not telephone translation)\<close>, whichever excluded type matched: the
  rejections recorded after \<open>persistent_bot_cycle\<close> are those recorded before it followed
  by new ones that all have this reason.
\<close>

theorem recorded_rejection_reason_is_fixed:
  "\<exists>new. recorded_rejections (snd (persistent_bot_cycle env cfg jobs_url m)) =
            recorded_rejections m @ new \<and>
         list_all (\<lambda>x. rejection_reason x = ''Face-to-face job (not telephone translation)'')
           new"
proof -
  obtain r m1 where pre:
    "io_bind (on_world (page_goto env jobs_url)) (\<lambda>_. on_world (extract_jobs env)) m = (r, m1)"
    by (cases "io_bind (on_world (page_goto env jobs_url)) (\<lambda>_. on_world (extract_jobs env)) m")
  then have same: "recorded_rejections m1 = recorded_rejections m"
    by (auto simp: io_bind_def split: prod.splits sum.splits dest!: on_world_recorded)
  show ?thesis
  proof (cases r)
    case (Inl e)
    with pre same show ?thesis by (simp add: persistent_bot_cycle_def)
  next
    case (Inr jobs)
    from cycle_loop_recorded [of env cfg jobs 0 m1] pre same Inr
    show ?thesis
      by (auto simp: persistent_bot_cycle_def face_to_face_reason_def split: prod.splits)
  qed
qed

end
